theory Spec2Isabelle
  imports Complex_Main
begin

section \<open>Python values and the operations the benchmark applies to them\<close>

text \<open>
  The benchmark script (\<^verbatim>\<open>benchmark.py\<close>) works on values decoded from JSON by the
  standard library. Python is dynamically typed, so every place that receives a decoded
  value may receive any of them; the datatype below is both the result type of
  \<^verbatim>\<open>json.loads\<close> and the type of the Python variables that hold such values.
  An object is an association list read with \<open>map_of\<close> (a decoded object has distinct
  keys). Floats are abstracted to real numbers: subtraction and division are exact here,
  and the non-finite floats are left out of decoded values.

  A Python \<^verbatim>\<open>str\<close> is a \<open>string\<close>; a character stands for the code point of the same
  number, which covers U+0000 to U+00FF.
\<close>

datatype json =
    JNull
  | JBool bool
  | JInt int
  | JFloat real
  | JStr string
  | JArr "json list"
  | JObj "(string \<times> json) list"

datatype error =
    TypeError
  | AttributeError
  | KeyError
  | IndexError
  | UnboundLocalError
  | OverflowError
  | RequestException
  | HTTPError
  | JSONDecodeError
  | TokenizerError

text \<open>Truth value of a Python object, as \<^verbatim>\<open>if x:\<close>, \<^verbatim>\<open>not x\<close>, \<^verbatim>\<open>x or y\<close> test it.\<close>

fun truthy :: "json \<Rightarrow> bool" where
  "truthy JNull = False"
| "truthy (JBool b) = b"
| "truthy (JInt n) = (n \<noteq> 0)"
| "truthy (JFloat x) = (x \<noteq> 0)"
| "truthy (JStr s) = (s \<noteq> [])"
| "truthy (JArr xs) = (xs \<noteq> [])"
| "truthy (JObj kvs) = (kvs \<noteq> [])"

text \<open>\<^verbatim>\<open>isinstance(x, dict)\<close>.\<close>

fun is_dict :: "json \<Rightarrow> bool" where
  "is_dict (JObj kvs) = True"
| "is_dict v = False"

text \<open>\<^verbatim>\<open>needle in hay\<close> for two strings: \<open>needle\<close> occurs as a contiguous part of \<open>hay\<close>.\<close>

fun starts_with :: "string \<Rightarrow> string \<Rightarrow> bool" where
  "starts_with [] s = True"
| "starts_with (p # ps) [] = False"
| "starts_with (p # ps) (c # cs) = (p = c \<and> starts_with ps cs)"

fun str_contains :: "string \<Rightarrow> string \<Rightarrow> bool" where
  "str_contains needle [] = (needle = [])"
| "str_contains needle (c # cs) = (starts_with needle (c # cs) \<or> str_contains needle cs)"

text \<open>
  \<^verbatim>\<open>k in v\<close> with a string \<open>k\<close>: key membership for a dict, element membership for a
  list, substring test for a string, \<^verbatim>\<open>TypeError\<close> for the values that are not iterable.
\<close>

fun py_in :: "string \<Rightarrow> json \<Rightarrow> error + bool" where
  "py_in k (JObj kvs) = Inr (k \<in> set (map fst kvs))"
| "py_in k (JArr xs) = Inr (JStr k \<in> set xs)"
| "py_in k (JStr s) = Inr (str_contains k s)"
| "py_in k v = Inl TypeError"

text \<open>\<^verbatim>\<open>v[k]\<close> with a string \<open>k\<close>: only a dict can be subscripted by a string.\<close>

fun py_getitem :: "json \<Rightarrow> string \<Rightarrow> error + json" where
  "py_getitem (JObj kvs) k = (case map_of kvs k of None \<Rightarrow> Inl KeyError | Some v \<Rightarrow> Inr v)"
| "py_getitem v k = Inl TypeError"

text \<open>
  \<^verbatim>\<open>v[0]\<close>: the first element of a list, the first character of a string (as a string),
  \<^verbatim>\<open>KeyError\<close> for a dict (its keys are strings), \<^verbatim>\<open>TypeError\<close> otherwise.
\<close>

fun py_first :: "json \<Rightarrow> error + json" where
  "py_first (JArr []) = Inl IndexError"
| "py_first (JArr (x # xs)) = Inr x"
| "py_first (JStr []) = Inl IndexError"
| "py_first (JStr (c # cs)) = Inr (JStr [c])"
| "py_first (JObj kvs) = Inl KeyError"
| "py_first v = Inl TypeError"

text \<open>\<^verbatim>\<open>v.get(k, default)\<close>: a method of dicts only.\<close>

fun py_get :: "json \<Rightarrow> string \<Rightarrow> json \<Rightarrow> error + json" where
  "py_get (JObj kvs) k d = (case map_of kvs k of None \<Rightarrow> Inr d | Some v \<Rightarrow> Inr v)"
| "py_get v k d = Inl AttributeError"

section \<open>Character classes and \<^verbatim>\<open>str.strip\<close>\<close>

text \<open>
  \<open>re_space\<close> is the class \<^verbatim>\<open>\s\<close> of a \<^verbatim>\<open>str\<close> pattern and the set that \<^verbatim>\<open>str.strip()\<close>
  removes; \<open>re_word\<close> is the class \<^verbatim>\<open>\w\<close> (alphanumeric or underscore). Both are given
  by the Unicode tables for the code points below 256.
\<close>

definition re_space :: "char \<Rightarrow> bool" where
  "re_space c =
     (let n = (of_char c :: nat)
      in (9 \<le> n \<and> n \<le> 13) \<or> (28 \<le> n \<and> n \<le> 32) \<or> n = 133 \<or> n = 160)"

definition re_word :: "char \<Rightarrow> bool" where
  "re_word c =
     (let n = (of_char c :: nat)
      in (48 \<le> n \<and> n \<le> 57) \<or> (65 \<le> n \<and> n \<le> 90) \<or> n = 95 \<or> (97 \<le> n \<and> n \<le> 122)
         \<or> n = 170 \<or> n = 178 \<or> n = 179 \<or> n = 181 \<or> n = 185 \<or> n = 186
         \<or> (188 \<le> n \<and> n \<le> 190) \<or> (192 \<le> n \<and> n \<le> 214) \<or> (216 \<le> n \<and> n \<le> 246)
         \<or> 248 \<le> n)"

definition strip :: "string \<Rightarrow> string" where
  "strip s = rev (dropWhile re_space (rev (dropWhile re_space s)))"

section \<open>The token counter\<close>

text \<open>
  \<^verbatim>\<open>re.findall(r"\w+|[^\s\w]", text)\<close>: the scan goes left to right; at a word character
  the first alternative takes the whole run of word characters, at a character that is
  neither a word character nor white space the second alternative takes that character,
  and at white space nothing matches and the scan moves on by one.
\<close>

function findall :: "string \<Rightarrow> string list" where
  "findall [] = []"
| "findall (c # cs) =
     (if re_word c then (c # takeWhile re_word cs) # findall (dropWhile re_word cs)
      else if re_space c then findall cs
      else [c] # findall cs)"
  by pat_completeness auto
termination
proof (relation "measure length")
  fix c :: char and cs :: string
  have "length (dropWhile re_word cs) \<le> length cs"
    by (rule length_dropWhile_le)
  then show "(dropWhile re_word cs, c # cs) \<in> measure length"
    by simp
qed auto

definition heuristic_count :: "string \<Rightarrow> int" where
  "heuristic_count text = int (length (findall text))"

text \<open>
  The count the specification describes: the number of maximal runs of word characters
  (a run starts at a word character whose predecessor is not one; \<open>prev\<close> tells whether
  the preceding character was a word character) plus the number of characters that are
  neither word characters nor white space.
\<close>

fun word_runs :: "bool \<Rightarrow> string \<Rightarrow> nat" where
  "word_runs prev [] = 0"
| "word_runs prev (c # cs) =
     (if re_word c \<and> \<not> prev then 1 else 0) + word_runs (re_word c) cs"

definition symbol_chars :: "string \<Rightarrow> nat" where
  "symbol_chars text = length (filter (\<lambda>c. \<not> re_space c \<and> \<not> re_word c) text)"

text \<open>
  The optional tokenizer library. \<open>None\<close> for the whole record is
  \<^verbatim>\<open>TIKTOKEN_AVAILABLE = False\<close>. Its three entry points are parameters: each returns a
  value or raises. \<open>encode\<close> receives whatever \<^verbatim>\<open>token_count\<close> was given.
\<close>

record 'e tiktoken =
  encoding_for_model :: "string \<Rightarrow> error + 'e"
  get_encoding :: "string \<Rightarrow> error + 'e"
  encode :: "'e \<Rightarrow> json \<Rightarrow> error + nat list"

text \<open>
  The inner \<^verbatim>\<open>try\<close> of \<^verbatim>\<open>token_count\<close>: the encoding of the model when a model is
  given (a non-empty string), else \<^verbatim>\<open>cl100k_base\<close>; on any exception \<^verbatim>\<open>cl100k_base\<close>.
\<close>

definition resolve_encoding :: "'e tiktoken \<Rightarrow> string option \<Rightarrow> error + 'e" where
  "resolve_encoding tk model =
     (case (case model of
              None \<Rightarrow> get_encoding tk ''cl100k_base''
            | Some m \<Rightarrow> if m \<noteq> [] then encoding_for_model tk m
                        else get_encoding tk ''cl100k_base'') of
        Inl e \<Rightarrow> get_encoding tk ''cl100k_base''
      | Inr enc \<Rightarrow> Inr enc)"

text \<open>The outer \<^verbatim>\<open>try\<close>: \<^verbatim>\<open>len(enc.encode(text))\<close>, or the exception that escaped.\<close>

definition tiktoken_count :: "'e tiktoken \<Rightarrow> json \<Rightarrow> string option \<Rightarrow> error + int" where
  "tiktoken_count tk text model =
     (case resolve_encoding tk model of
        Inl e \<Rightarrow> Inl e
      | Inr enc \<Rightarrow>
          (case encode tk enc text of
             Inl e \<Rightarrow> Inl e
           | Inr toks \<Rightarrow> Inr (int (length toks))))"

text \<open>The fallback: \<^verbatim>\<open>re.findall\<close> accepts a string only.\<close>

fun heuristic :: "json \<Rightarrow> error + int" where
  "heuristic (JStr s) = Inr (heuristic_count s)"
| "heuristic v = Inl TypeError"

definition token_count :: "'e tiktoken option \<Rightarrow> json \<Rightarrow> string option \<Rightarrow> error + int" where
  "token_count tiktoken_available text model =
     (if \<not> truthy text then Inr 0
      else
        (case tiktoken_available of
           None \<Rightarrow> heuristic text
         | Some tk \<Rightarrow>
             (case tiktoken_count tk text model of
                Inr n \<Rightarrow> Inr n
              | Inl e \<Rightarrow> heuristic text)))"

section \<open>The benchmark result\<close>

text \<open>
  A Python float that may be \<^verbatim>\<open>float("inf")\<close>, and the dictionary that is printed. The
  record holds the values before \<^verbatim>\<open>round(_, 6)\<close> and \<^verbatim>\<open>json.dumps\<close> format them.
\<close>

datatype pyfloat = Fin real | PosInf

record report =
  mode :: string
  tokens :: json
  elapsed_seconds :: real
  tokens_per_second :: pyfloat

text \<open>
  The value of a Python number (a \<^verbatim>\<open>bool\<close> is an \<^verbatim>\<open>int\<close> in Python); \<open>None\<close> for a
  value that is not a number.
\<close>

fun as_number :: "json \<Rightarrow> real option" where
  "as_number (JInt n) = Some (real_of_int n)"
| "as_number (JFloat x) = Some x"
| "as_number (JBool b) = Some (if b then 1 else 0)"
| "as_number v = None"

text \<open>
  The left operand of \<^verbatim>\<open>num_tokens / elapsed\<close> as a float. An \<^verbatim>\<open>int\<close> is converted, and
  the conversion raises \<^verbatim>\<open>OverflowError\<close> when the integer rounds to a magnitude beyond
  the largest double, that is from \<open>2 ^ 1024 - 2 ^ 970\<close> on; a value that is not a
  number raises \<^verbatim>\<open>TypeError\<close>.
\<close>

definition float_limit :: int where
  "float_limit = 2 ^ 1024 - 2 ^ 970"

fun float_of :: "json \<Rightarrow> error + real" where
  "float_of (JInt n) = (if \<bar>n\<bar> < float_limit then Inr (real_of_int n) else Inl OverflowError)"
| "float_of (JFloat x) = Inr x"
| "float_of (JBool b) = Inr (if b then 1 else 0)"
| "float_of v = Inl TypeError"

text \<open>\<^verbatim>\<open>num_tokens / elapsed\<close> for a positive float \<open>elapsed\<close>.\<close>

definition py_truediv :: "json \<Rightarrow> real \<Rightarrow> error + real" where
  "py_truediv num_tokens elapsed =
     (case float_of num_tokens of
        Inl e \<Rightarrow> Inl e
      | Inr x \<Rightarrow> Inr (x / elapsed))"

text \<open>\<^verbatim>\<open>tps = num_tokens / elapsed if elapsed > 0 else float("inf")\<close>.\<close>

definition tps_of :: "json \<Rightarrow> real \<Rightarrow> error + pyfloat" where
  "tps_of num_tokens elapsed =
     (if elapsed > 0 then
        (case py_truediv num_tokens elapsed of
           Inl e \<Rightarrow> Inl e
         | Inr q \<Rightarrow> Inr (Fin q))
      else Inr PosInf)"

section \<open>Streaming mode\<close>

text \<open>
  The three local variables of \<^verbatim>\<open>run_streaming\<close>. A chunk is whatever value the
  extraction produced: the source appends it without looking at its type.
\<close>

record state =
  first_token_time :: "real option"
  last_token_time :: "real option"
  chunks :: "json list"

definition init_state :: state where
  "init_state = \<lparr>first_token_time = None, last_token_time = None, chunks = []\<rparr>"

text \<open>
  \<^verbatim>\<open>"delta" in ch and isinstance(ch["delta"], dict)\<close>; the subscript is evaluated only
  when the membership test is true.
\<close>

definition delta_is_dict :: "json \<Rightarrow> error + bool" where
  "delta_is_dict ch =
     (case py_in ''delta'' ch of
        Inl e \<Rightarrow> Inl e
      | Inr False \<Rightarrow> Inr False
      | Inr True \<Rightarrow>
          (case py_getitem ch ''delta'' of
             Inl e \<Rightarrow> Inl e
           | Inr d \<Rightarrow> Inr (is_dict d)))"

text \<open>
  The body of the \<^verbatim>\<open>try\<close> that extracts the text delta; \<open>Inr\<close> is the value that
  \<^verbatim>\<open>text_piece\<close> holds when the body ends without an exception.
\<close>

definition text_piece_try :: "json \<Rightarrow> error + json" where
  "text_piece_try obj =
     (case py_get obj ''choices'' JNull of
        Inl e \<Rightarrow> Inl e
      | Inr c \<Rightarrow>
          (let choices = (if truthy c then c else JArr []) in
           if truthy choices then
             (case py_first choices of
                Inl e \<Rightarrow> Inl e
              | Inr ch \<Rightarrow>
                  (case delta_is_dict ch of
                     Inl e \<Rightarrow> Inl e
                   | Inr True \<Rightarrow>
                       (case py_getitem ch ''delta'' of
                          Inl e \<Rightarrow> Inl e
                        | Inr d \<Rightarrow> py_get d ''content'' (JStr []))
                   | Inr False \<Rightarrow>
                       (case py_in ''text'' ch of
                          Inl e \<Rightarrow> Inl e
                        | Inr True \<Rightarrow> py_get ch ''text'' (JStr [])
                        | Inr False \<Rightarrow> Inr (JStr []))))
           else Inr (JStr [])))"

text \<open>
  \<^verbatim>\<open>text_piece = ""\<close>, then the \<^verbatim>\<open>try\<close> with \<^verbatim>\<open>except Exception: pass\<close>: an exception
  leaves the empty string, because both assignments are the last action of their branch.
\<close>

definition text_piece :: "json \<Rightarrow> json" where
  "text_piece obj = (case text_piece_try obj of Inl e \<Rightarrow> JStr [] | Inr v \<Rightarrow> v)"

text \<open>
  The four statements that both accumulating branches repeat: append the chunk, read
  the clock, set the first time if it is \<^verbatim>\<open>None\<close>, set the last time.
\<close>

definition accumulate :: "state \<Rightarrow> json \<Rightarrow> real \<Rightarrow> state" where
  "accumulate st piece now =
     st\<lparr>chunks := chunks st @ [piece],
        first_token_time := (if first_token_time st = None then Some now
                             else first_token_time st),
        last_token_time := Some now\<rparr>"

text \<open>\<^verbatim>\<open>payload_text\<close> of a stripped, non-empty line.\<close>

definition payload_of :: "string \<Rightarrow> string" where
  "payload_of line =
     (if starts_with ''data:'' line then strip (drop (length ''data:'') line) else line)"

text \<open>
  The part of the loop body that follows the test for the sentinel: decode the payload;
  \<open>loads\<close> is \<^verbatim>\<open>json.loads\<close>, \<open>None\<close> when it raises.
\<close>

definition handle_object :: "state \<Rightarrow> real \<Rightarrow> json \<Rightarrow> state" where
  "handle_object st now obj =
     (let piece = text_piece obj in
      if truthy piece then accumulate st piece now else st)"

definition handle_payload ::
  "(string \<Rightarrow> json option) \<Rightarrow> state \<Rightarrow> real \<Rightarrow> string \<Rightarrow> state" where
  "handle_payload loads st now payload_text =
     (case loads payload_text of
        None \<Rightarrow>
          (if payload_text \<noteq> [] then accumulate st (JStr payload_text) now else st)
      | Some obj \<Rightarrow> handle_object st now obj)"

text \<open>
  One iteration of the \<^verbatim>\<open>for\<close> loop. A line comes with the reading the clock gives
  while that line is processed (an iteration reads the clock at most once).
\<close>

datatype flow = Continue state | Break state

definition step ::
  "(string \<Rightarrow> json option) \<Rightarrow> state \<Rightarrow> string option \<times> real \<Rightarrow> flow" where
  "step loads st ev =
     (case fst ev of
        None \<Rightarrow> Continue st
      | Some raw \<Rightarrow>
          (let line = strip raw in
           if line = [] then Continue st
           else
             (let payload_text = payload_of line in
              if payload_text = ''[DONE]''
              then Break (st\<lparr>last_token_time := Some (snd ev)\<rparr>)
              else Continue (handle_payload loads st (snd ev) payload_text))))"

text \<open>
  The loop over \<^verbatim>\<open>r.iter_lines\<close>. The stream is the finite list of lines received;
  \<open>broken\<close> says that the iterator raises after them (the connection dropped) instead of
  ending.
\<close>

fun consume ::
  "(string \<Rightarrow> json option) \<Rightarrow> state \<Rightarrow> (string option \<times> real) list \<Rightarrow> bool
     \<Rightarrow> error + state" where
  "consume loads st [] broken = (if broken then Inl RequestException else Inr st)"
| "consume loads st (ev # evs) broken =
     (case step loads st ev of
        Break st' \<Rightarrow> Inr st'
      | Continue st' \<Rightarrow> consume loads st' evs broken)"

text \<open>\<^verbatim>\<open>"".join(chunks)\<close>: every item must be a string.\<close>

fun join_chunks :: "json list \<Rightarrow> error + string" where
  "join_chunks [] = Inr []"
| "join_chunks (JStr s # cs) =
     (case join_chunks cs of Inl e \<Rightarrow> Inl e | Inr t \<Rightarrow> Inr (s @ t))"
| "join_chunks (v # cs) = Inl TypeError"

text \<open>
  \<^verbatim>\<open>(last - first) if (first and last) else 0.0\<close>: the condition is the truth value of
  the two variables, so \<^verbatim>\<open>None\<close> and the float zero both select \<^verbatim>\<open>0.0\<close>.
\<close>

definition elapsed_of :: "state \<Rightarrow> real" where
  "elapsed_of st =
     (case first_token_time st of
        None \<Rightarrow> 0
      | Some t_first \<Rightarrow>
          (case last_token_time st of
             None \<Rightarrow> 0
           | Some t_last \<Rightarrow>
               if t_first \<noteq> 0 \<and> t_last \<noteq> 0 then t_last - t_first else 0))"

text \<open>What follows the loop: the text, the elapsed time, the count, the rate.\<close>

definition finish_stream :: "'e tiktoken option \<Rightarrow> string \<Rightarrow> state \<Rightarrow> error + report" where
  "finish_stream tiktoken_available model st =
     (case join_chunks (chunks st) of
        Inl e \<Rightarrow> Inl e
      | Inr full_text \<Rightarrow>
          (let elapsed = elapsed_of st in
           case token_count tiktoken_available (JStr full_text) (Some model) of
             Inl e \<Rightarrow> Inl e
           | Inr num_tokens \<Rightarrow>
               (case tps_of (JInt num_tokens) elapsed of
                  Inl e \<Rightarrow> Inl e
                | Inr tps \<Rightarrow>
                    Inr \<lparr>mode = ''stream'', tokens = JInt num_tokens,
                         elapsed_seconds = elapsed, tokens_per_second = tps\<rparr>)))"

text \<open>
  The answer to the streaming request: \<^verbatim>\<open>requests.post\<close> raised (\<open>Inl\<close>), or a response
  with its status and its lines.
\<close>

record stream_response =
  stream_ok :: bool
  stream_lines :: "(string option \<times> real) list"
  stream_broken :: bool

definition run_streaming ::
  "'e tiktoken option \<Rightarrow> (string \<Rightarrow> json option) \<Rightarrow> string \<Rightarrow> error + stream_response
     \<Rightarrow> error + report" where
  "run_streaming tiktoken_available loads model posted =
     (case posted of
        Inl e \<Rightarrow> Inl e
      | Inr r \<Rightarrow>
          if \<not> stream_ok r then Inl HTTPError
          else
            (case consume loads init_state (stream_lines r) (stream_broken r) of
               Inl e \<Rightarrow> Inl e
             | Inr st \<Rightarrow> finish_stream tiktoken_available model st))"

section \<open>Non-streaming mode\<close>

text \<open>
  \<^verbatim>\<open>"message" in choice and "content" in choice["message"]\<close>.
\<close>

definition message_has_content :: "json \<Rightarrow> error + bool" where
  "message_has_content choice =
     (case py_in ''message'' choice of
        Inl e \<Rightarrow> Inl e
      | Inr False \<Rightarrow> Inr False
      | Inr True \<Rightarrow>
          (case py_getitem choice ''message'' of
             Inl e \<Rightarrow> Inl e
           | Inr m \<Rightarrow> py_in ''content'' m))"

text \<open>
  The extraction of \<^verbatim>\<open>text\<close> from a dict \<open>data\<close>. Nothing here is inside a \<^verbatim>\<open>try\<close>:
  an exception leaves \<^verbatim>\<open>run_non_streaming\<close>.
\<close>

definition response_text :: "json \<Rightarrow> error + json" where
  "response_text data =
     (case py_get data ''choices'' JNull of
        Inl e \<Rightarrow> Inl e
      | Inr c \<Rightarrow>
          if truthy c then
            (case py_getitem data ''choices'' of
               Inl e \<Rightarrow> Inl e
             | Inr cs \<Rightarrow>
                 (case py_first cs of
                    Inl e \<Rightarrow> Inl e
                  | Inr choice \<Rightarrow>
                      (case message_has_content choice of
                         Inl e \<Rightarrow> Inl e
                       | Inr True \<Rightarrow>
                           (case py_getitem choice ''message'' of
                              Inl e \<Rightarrow> Inl e
                            | Inr m \<Rightarrow> py_getitem m ''content'')
                       | Inr False \<Rightarrow>
                           (case py_in ''text'' choice of
                              Inl e \<Rightarrow> Inl e
                            | Inr True \<Rightarrow> py_getitem choice ''text''
                            | Inr False \<Rightarrow> Inr (JStr [])))))
          else Inr (JStr []))"

text \<open>
  \<^verbatim>\<open>usage_tokens = None\<close>, then the value of \<^verbatim>\<open>usage.total_tokens\<close> when \<^verbatim>\<open>usage\<close> is a
  dict (\<^verbatim>\<open>.get\<close> gives \<^verbatim>\<open>None\<close> for a missing key).
\<close>

definition usage_total_tokens :: "json \<Rightarrow> error + json" where
  "usage_total_tokens data =
     (case py_in ''usage'' data of
        Inl e \<Rightarrow> Inl e
      | Inr False \<Rightarrow> Inr JNull
      | Inr True \<Rightarrow>
          (case py_getitem data ''usage'' of
             Inl e \<Rightarrow> Inl e
           | Inr u \<Rightarrow> if is_dict u then py_get u ''total_tokens'' JNull else Inr JNull))"

text \<open>
  The block \<^verbatim>\<open>text = ""; if isinstance(data, dict): ...\<close>. It yields \<^verbatim>\<open>text\<close> and the
  binding of \<^verbatim>\<open>usage_tokens\<close>: \<open>None\<close> when the variable was never assigned, which is
  the case exactly when \<open>data\<close> is not a dict.
\<close>

definition read_body :: "json \<Rightarrow> error + json \<times> json option" where
  "read_body data =
     (if is_dict data then
        (case response_text data of
           Inl e \<Rightarrow> Inl e
         | Inr text \<Rightarrow>
             (case usage_total_tokens data of
                Inl e \<Rightarrow> Inl e
              | Inr usage_tokens \<Rightarrow> Inr (text, Some usage_tokens)))
      else Inr (JStr [], None))"

text \<open>
  \<^verbatim>\<open>num_tokens = usage_tokens if usage_tokens is not None else token_count(text, model)\<close>;
  reading the unassigned variable raises \<^verbatim>\<open>UnboundLocalError\<close>.
\<close>

definition num_tokens_of ::
  "'e tiktoken option \<Rightarrow> string \<Rightarrow> json \<Rightarrow> json option \<Rightarrow> error + json" where
  "num_tokens_of tiktoken_available model text usage_binding =
     (case usage_binding of
        None \<Rightarrow> Inl UnboundLocalError
      | Some usage_tokens \<Rightarrow>
          if usage_tokens \<noteq> JNull then Inr usage_tokens
          else
            (case token_count tiktoken_available text (Some model) of
               Inl e \<Rightarrow> Inl e
             | Inr n \<Rightarrow> Inr (JInt n)))"

text \<open>
  The answer to the request: \<^verbatim>\<open>requests.post\<close> raised, or a response with its status and
  the value \<^verbatim>\<open>r.json()\<close> decodes (\<open>None\<close> when the body is not JSON). \<open>start\<close> and
  \<open>finish\<close> are the two clock readings around the request.
\<close>

record response =
  status_ok :: bool
  json_body :: "json option"

definition run_non_streaming ::
  "'e tiktoken option \<Rightarrow> string \<Rightarrow> real \<Rightarrow> error + response \<Rightarrow> real \<Rightarrow> error + report" where
  "run_non_streaming tiktoken_available model start posted finish =
     (case posted of
        Inl e \<Rightarrow> Inl e
      | Inr r \<Rightarrow>
          (let elapsed = finish - start in
           if \<not> status_ok r then Inl HTTPError
           else
             (case json_body r of
                None \<Rightarrow> Inl JSONDecodeError
              | Some data \<Rightarrow>
                  (case read_body data of
                     Inl e \<Rightarrow> Inl e
                   | Inr (text, usage_binding) \<Rightarrow>
                       (case num_tokens_of tiktoken_available model text usage_binding of
                          Inl e \<Rightarrow> Inl e
                        | Inr num_tokens \<Rightarrow>
                            (case tps_of num_tokens elapsed of
                               Inl e \<Rightarrow> Inl e
                             | Inr tps \<Rightarrow>
                                 Inr \<lparr>mode = ''non-stream'', tokens = num_tokens,
                                      elapsed_seconds = elapsed,
                                      tokens_per_second = tps\<rparr>))))))"

section \<open>What the specification calls fragments\<close>

text \<open>
  The specification describes the loop by what each line contributes: nothing, the end
  of the stream, or one non-empty fragment. \<open>line_event\<close> and \<open>fragments\<close> follow that
  description (steps 2a to 2f); the theorems below compare them with the loop.
\<close>

datatype event = Skip | Done | Fragment json

definition line_event :: "(string \<Rightarrow> json option) \<Rightarrow> string option \<Rightarrow> event" where
  "line_event loads raw =
     (case raw of
        None \<Rightarrow> Skip
      | Some r \<Rightarrow>
          if strip r = [] then Skip
          else if payload_of (strip r) = ''[DONE]'' then Done
          else
            (case loads (payload_of (strip r)) of
               None \<Rightarrow>
                 if payload_of (strip r) = [] then Skip
                 else Fragment (JStr (payload_of (strip r)))
             | Some obj \<Rightarrow>
                 if truthy (text_piece obj) then Fragment (text_piece obj) else Skip))"

fun fragments :: "(string \<Rightarrow> json option) \<Rightarrow> (string option \<times> real) list \<Rightarrow> json list" where
  "fragments loads [] = []"
| "fragments loads (ev # evs) =
     (case line_event loads (fst ev) of
        Skip \<Rightarrow> fragments loads evs
      | Done \<Rightarrow> []
      | Fragment v \<Rightarrow> v # fragments loads evs)"

text \<open>The two shapes of a streamed object (section 6 of the specification).\<close>

definition chat_chunk :: "string \<Rightarrow> json" where
  "chat_chunk s = JObj [(''choices'', JArr [JObj [(''delta'', JObj [(''content'', JStr s)])]])]"

definition completion_chunk :: "string \<Rightarrow> json" where
  "completion_chunk s = JObj [(''choices'', JArr [JObj [(''text'', JStr s)]])]"

section \<open>Sample inputs\<close>

text \<open>
  Lines of a stream as a server sends them, and a finite part of \<^verbatim>\<open>json.loads\<close>: the
  decoded value of each payload that the samples use. Every other string the samples
  contain (\<^verbatim>\<open>heartbeat\<close>, the empty string) is not JSON, and \<open>sample_loads\<close> gives
  \<open>None\<close> for it as \<^verbatim>\<open>json.loads\<close> raises.
\<close>

definition hello_payload :: string where
  \<open>hello_payload = ''{"choices":[{"delta":{"content":"Hello"}}]}''\<close>

definition world_payload :: string where
  \<open>world_payload = ''{"choices":[{"delta":{"content":" world"}}]}''\<close>

definition foo_chat_payload :: string where
  \<open>foo_chat_payload = ''{"choices":[{"delta":{"content":"foo"}}]}''\<close>

definition foo_completion_payload :: string where
  \<open>foo_completion_payload = ''{"choices":[{"text":"foo"}]}''\<close>

definition role_payload :: string where
  \<open>role_payload = ''{"choices":[{"delta":{"role":"assistant"}}]}''\<close>

definition number_payload :: string where
  \<open>number_payload = ''{"choices":[{"delta":{"content":5}}]}''\<close>

definition sample_loads :: "string \<Rightarrow> json option" where
  "sample_loads =
     map_of
       [(hello_payload, chat_chunk ''Hello''),
        (world_payload, chat_chunk '' world''),
        (foo_chat_payload, chat_chunk ''foo''),
        (foo_completion_payload, completion_chunk ''foo''),
        (role_payload,
         JObj [(''choices'', JArr [JObj [(''delta'', JObj [(''role'', JStr ''assistant'')])]])]),
        (number_payload,
         JObj [(''choices'', JArr [JObj [(''delta'', JObj [(''content'', JInt 5)])]])])]"

text \<open>The wire format of an event, \<^verbatim>\<open>data: <payload>\<close>, and the last event of a stream.\<close>

definition sse :: "string \<Rightarrow> string" where
  "sse payload = ''data: '' @ payload"

definition done_line :: string where
  "done_line = sse ''[DONE]''"

text \<open>A tokenizer library whose calls raise, except that \<^verbatim>\<open>cl100k_base\<close> is found.\<close>

definition failing_tiktoken :: "unit tiktoken" where
  "failing_tiktoken =
     \<lparr>encoding_for_model = (\<lambda>m. Inl TokenizerError),
      get_encoding = (\<lambda>n. Inr ()),
      encode = (\<lambda>enc text. Inl TokenizerError)\<rparr>"

text \<open>
  A tokenizer library that does not know the model, finds \<^verbatim>\<open>cl100k_base\<close> (encoding 1)
  and encodes every text to three tokens with it.
\<close>

definition fallback_tiktoken :: "nat tiktoken" where
  "fallback_tiktoken =
     \<lparr>encoding_for_model = (\<lambda>m. Inl KeyError),
      get_encoding = (\<lambda>n. if n = ''cl100k_base'' then Inr 1 else Inl KeyError),
      encode = (\<lambda>enc text. if enc = 1 then Inr [10, 20, 30] else Inl TokenizerError)\<rparr>"

text \<open>
  A tokenizer library that knows the model (encoding 2, four tokens for every text).
\<close>

definition model_tiktoken :: "nat tiktoken" where
  "model_tiktoken =
     \<lparr>encoding_for_model = (\<lambda>m. Inr 2),
      get_encoding = (\<lambda>n. if n = ''cl100k_base'' then Inr 1 else Inl KeyError),
      encode = (\<lambda>enc text. if enc = 2 then Inr [10, 20, 30, 40] else Inr [10, 20, 30])\<rparr>"

text \<open>
  The same response with a token count of 401 digits, which no float holds.
\<close>

definition huge_count :: int where
  "huge_count = 10 ^ 400"

definition huge_usage_response :: json where
  "huge_usage_response =
     JObj [(''choices'', JArr [JObj [(''message'', JObj [(''content'', JStr ''hi'')])]]),
           (''usage'', JObj [(''total_tokens'', JInt huge_count)])]"

text \<open>
  A response whose content is a number:
  \<^verbatim>\<open>{"choices":[{"message":{"content":5}}]}\<close>.
\<close>

definition number_content_response :: json where
  "number_content_response =
     JObj [(''choices'', JArr [JObj [(''message'', JObj [(''content'', JInt 5)])]])]"

text \<open>
  The response of the specification's non-streaming example:
  \<^verbatim>\<open>{"choices":[{"message":{"content":"hi"}}], "usage":{"total_tokens":7}}\<close>.
\<close>

definition usage_response :: json where
  "usage_response =
     JObj [(''choices'', JArr [JObj [(''message'', JObj [(''content'', JStr ''hi'')])]]),
           (''usage'', JObj [(''total_tokens'', JInt 7)])]"

section \<open>The heuristic count\<close>

lemma word_runs_after_run: "word_runs True cs = word_runs False (dropWhile re_word cs)"
proof (induction cs)
  case Nil
  show ?case by simp
next
  case (Cons c cs)
  show ?case
  proof (cases "re_word c")
    case True
    with Cons show ?thesis by simp
  next
    case False
    then show ?thesis by simp
  qed
qed

lemma symbol_chars_after_run: "symbol_chars (dropWhile re_word cs) = symbol_chars cs"
  by (induction cs) (simp_all add: symbol_chars_def)

lemma findall_length: "length (findall s) = word_runs False s + symbol_chars s"
proof (induction s rule: findall.induct)
  case 1
  show ?case by (simp add: symbol_chars_def)
next
  case (2 c cs)
  show ?case
  proof (cases "re_word c")
    case True
    have "length (findall (c # cs)) = Suc (length (findall (dropWhile re_word cs)))"
      using True by simp
    also have "\<dots> =
        Suc (word_runs False (dropWhile re_word cs) + symbol_chars (dropWhile re_word cs))"
      using 2(1) [OF True] by simp
    also have "\<dots> = Suc (word_runs True cs + symbol_chars cs)"
      by (simp add: word_runs_after_run [symmetric] symbol_chars_after_run)
    also have "\<dots> = word_runs False (c # cs) + symbol_chars (c # cs)"
      using True by (simp add: symbol_chars_def)
    finally show ?thesis .
  next
    case False
    show ?thesis
    proof (cases "re_space c")
      case True
      with False 2(2) show ?thesis by (simp add: symbol_chars_def)
    next
      case sp: False
      with False 2(3) show ?thesis by (simp add: symbol_chars_def)
    qed
  qed
qed

lemma findall_empty_iff: "findall s = [] \<longleftrightarrow> (\<forall>c \<in> set s. re_space c)"
proof (induction s rule: findall.induct)
  case 1
  show ?case by simp
next
  case (2 c cs)
  show ?case
  proof (cases "re_word c")
    case True
    then have "\<not> re_space c"
      by (auto simp: re_word_def re_space_def Let_def)
    with True show ?thesis by auto
  next
    case False
    with 2 show ?thesis by (cases "re_space c") auto
  qed
qed

text \<open>
  Claim C3, as the code has it. For every text the heuristic count is the number of
  maximal runs of word characters plus the number of characters that are neither word
  characters nor white space; it is at least 1 exactly when the text has a character
  that is not white space. (A non-empty text of white space only counts 0.)
\<close>

theorem heuristic_count_runs_and_symbols:
  "heuristic_count text = int (word_runs False text + symbol_chars text)
   \<and> (1 \<le> heuristic_count text \<longleftrightarrow> (\<exists>c \<in> set text. \<not> re_space c))"
proof
  show "heuristic_count text = int (word_runs False text + symbol_chars text)"
    by (simp add: heuristic_count_def findall_length)
next
  have "1 \<le> heuristic_count text \<longleftrightarrow> findall text \<noteq> []"
    by (cases "findall text") (simp_all add: heuristic_count_def)
  then show "1 \<le> heuristic_count text \<longleftrightarrow> (\<exists>c \<in> set text. \<not> re_space c)"
    by (simp add: findall_empty_iff)
qed

theorem heuristic_count_runs_and_symbols_witness:
  "(\<exists>c \<in> set ''ab, c''. \<not> re_space c)
   \<and> heuristic_count ''ab, c'' = 3
   \<and> int (word_runs False ''ab, c'' + symbol_chars ''ab, c'') = 3
   \<and> 1 \<le> heuristic_count ''ab, c''"
proof -
  have ex: "\<exists>c \<in> set ''ab, c''. \<not> re_space c"
    by (simp add: re_space_def)
  have v: "heuristic_count ''ab, c'' = 3"
    by code_simp
  from heuristic_count_runs_and_symbols [of "''ab, c''"] ex v show ?thesis
    by simp
qed

text \<open>
  The claim as the specification states it (at least 1 for every non-empty text) fails
  for a text that is one space.
\<close>

theorem whitespace_text_counts_zero:
  "'' '' \<noteq> [] \<and> \<not> 1 \<le> heuristic_count '' ''"
  by (simp add: heuristic_count_def re_word_def re_space_def)

section \<open>The loop and the specification's fragments\<close>

lemma step_line_event:
  "step loads st (raw, now) =
     (case line_event loads raw of
        Skip \<Rightarrow> Continue st
      | Done \<Rightarrow> Break (st\<lparr>last_token_time := Some now\<rparr>)
      | Fragment v \<Rightarrow> Continue (accumulate st v now))"
  by (simp add: step_def line_event_def handle_payload_def handle_object_def Let_def
        split: option.split)

lemma chunks_accumulate: "chunks (accumulate st v now) = chunks st @ [v]"
  by (simp add: accumulate_def)

lemma consume_chunks:
  "consume loads st evs broken = Inr st' \<Longrightarrow> chunks st' = chunks st @ fragments loads evs"
proof (induction evs arbitrary: st)
  case Nil
  then show ?case by (simp split: if_splits)
next
  case (Cons ev evs)
  obtain raw now where ev: "ev = (raw, now)"
    by (cases ev)
  show ?case
  proof (cases "line_event loads raw")
    case Skip
    with Cons.prems ev have "consume loads st evs broken = Inr st'"
      by (simp add: step_line_event)
    from Cons.IH [OF this] Skip ev show ?thesis by simp
  next
    case Done
    with Cons.prems ev show ?thesis
      by (auto simp: step_line_event)
  next
    case (Fragment v)
    with Cons.prems ev have "consume loads (accumulate st v now) evs broken = Inr st'"
      by (simp add: step_line_event)
    from Cons.IH [OF this] Fragment ev show ?thesis
      by (simp add: chunks_accumulate)
  qed
qed

lemma join_chunks_strings:
  "join_chunks cs = Inr t \<Longrightarrow> \<exists>ss. cs = map JStr ss \<and> t = concat ss"
proof (induction cs arbitrary: t rule: join_chunks.induct)
  case 1
  then show ?case by simp
next
  case (2 s cs)
  from "2.prems" obtain u where u: "join_chunks cs = Inr u" and t: "t = s @ u"
    by (auto split: sum.splits)
  from "2.IH" [OF u] obtain ss where "cs = map JStr ss" "u = concat ss"
    by blast
  with t have "JStr s # cs = map JStr (s # ss) \<and> t = concat (s # ss)"
    by simp
  then show ?case by (rule exI)
qed simp_all

lemma join_chunks_map: "join_chunks (map JStr ss) = Inr (concat ss)"
  by (induction ss) simp_all

lemma float_of_as_number: "float_of n = Inr x \<Longrightarrow> as_number n = Some x"
  by (cases n) (auto split: if_splits)

lemma tps_of_Inr:
  "tps_of n e = Inr t \<Longrightarrow>
     (0 < e \<longrightarrow> (\<exists>x. as_number n = Some x \<and> t = Fin (x / e))) \<and> (\<not> 0 < e \<longrightarrow> t = PosInf)"
  by (auto simp: tps_of_def py_truediv_def float_of_as_number split: if_splits sum.splits)

lemma finish_stream_Inr:
  "finish_stream tk model st = Inr rep \<Longrightarrow>
     \<exists>full_text n. join_chunks (chunks st) = Inr full_text
        \<and> token_count tk (JStr full_text) (Some model) = Inr n
        \<and> tps_of (JInt n) (elapsed_of st) = Inr (tokens_per_second rep)
        \<and> tokens rep = JInt n \<and> elapsed_seconds rep = elapsed_of st \<and> mode rep = ''stream''"
  by (auto simp: finish_stream_def Let_def split: sum.splits)

lemma run_streaming_Inr:
  "run_streaming tk loads model posted = Inr rep \<Longrightarrow>
     \<exists>r st. posted = Inr r \<and> stream_ok r
        \<and> consume loads init_state (stream_lines r) (stream_broken r) = Inr st
        \<and> finish_stream tk model st = Inr rep"
  by (auto simp: run_streaming_def split: sum.splits if_splits)

lemma run_non_streaming_Inr:
  "run_non_streaming tk model start posted finish = Inr rep \<Longrightarrow>
     tps_of (tokens rep) (elapsed_seconds rep) = Inr (tokens_per_second rep)
     \<and> elapsed_seconds rep = finish - start"
  by (auto simp: run_non_streaming_def Let_def split: sum.splits if_splits option.splits prod.splits)

lemma token_count_str_total: "\<exists>n. token_count tk (JStr s) model = Inr n"
  by (cases tk) (auto simp: token_count_def split: sum.splits)

lemma key_absent: "map_of kvs k = None \<Longrightarrow> k \<notin> set (map fst kvs)"
  by (simp add: map_of_eq_None_iff)

lemma key_present: "map_of kvs k = Some v \<Longrightarrow> k \<in> set (map fst kvs)"
  by (metis key_absent map_of_eq_None_iff option.distinct(1) set_map)


section \<open>The sample inputs, evaluated\<close>

lemma line_event_hello: "line_event sample_loads (Some (sse hello_payload)) = Fragment (JStr ''Hello'')"
  by code_simp

lemma line_event_world: "line_event sample_loads (Some (sse world_payload)) = Fragment (JStr '' world'')"
  by code_simp

lemma line_event_done: "line_event loads (Some done_line) = Done"
  by (simp add: line_event_def done_line_def sse_def strip_def payload_of_def re_space_def)

lemma line_event_heartbeat: "line_event sample_loads (Some ''heartbeat'') = Fragment (JStr ''heartbeat'')"
  by code_simp

lemma line_event_role: "line_event sample_loads (Some (sse role_payload)) = Skip"
  by code_simp


lemma heuristic_hello_world: "heuristic_count ''Hello world'' = 2"
  by code_simp

lemma hello_world_run:
  "run_streaming None sample_loads ''m''
     (Inr \<lparr>stream_ok = True,
           stream_lines = [(Some (sse hello_payload), 1), (Some (sse world_payload), 2),
                           (Some done_line, 3)],
           stream_broken = False\<rparr>)
   = Inr \<lparr>mode = ''stream'', tokens = JInt 2, elapsed_seconds = 2,
          tokens_per_second = Fin 1\<rparr>"
  by (simp add: run_streaming_def step_line_event line_event_hello line_event_world
        line_event_done accumulate_def init_state_def finish_stream_def elapsed_of_def
        tps_of_def py_truediv_def float_limit_def token_count_def heuristic_hello_world)

lemma usage_response_run:
  "run_non_streaming tk model 10 (Inr \<lparr>status_ok = True, json_body = Some usage_response\<rparr>) 12
   = Inr \<lparr>mode = ''non-stream'', tokens = JInt 7, elapsed_seconds = 2,
          tokens_per_second = Fin (7 / 2)\<rparr>"
  by (simp add: run_non_streaming_def read_body_def response_text_def message_has_content_def
        usage_total_tokens_def num_tokens_of_def tps_of_def py_truediv_def float_limit_def
        usage_response_def)

section \<open>Elapsed time of a stream\<close>

text \<open>
  When both times are set and neither is the float zero, the elapsed time is their
  difference; when either is unset it is zero.
\<close>

lemma elapsed_of_both_nonzero:
  "first_token_time st = Some a \<Longrightarrow> last_token_time st = Some b \<Longrightarrow> a \<noteq> 0 \<Longrightarrow> b \<noteq> 0
     \<Longrightarrow> elapsed_of st = b - a"
  by (simp add: elapsed_of_def)

lemma elapsed_of_unset:
  "first_token_time st = None \<or> last_token_time st = None \<Longrightarrow> elapsed_of st = 0"
  by (auto simp: elapsed_of_def split: option.splits)

text \<open>
  The times that the loop sets are readings of the clock: when no reading is zero, no
  time that is set is zero.
\<close>

lemma consume_times_nonzero:
  assumes "\<forall>ev \<in> set evs. snd ev \<noteq> 0"
    and "consume loads st evs broken = Inr st'"
    and "first_token_time st \<noteq> Some 0" and "last_token_time st \<noteq> Some 0"
  shows "first_token_time st' \<noteq> Some 0 \<and> last_token_time st' \<noteq> Some 0"
  using assms
proof (induction evs arbitrary: st)
  case Nil
  then show ?case by (simp split: if_splits)
next
  case (Cons ev evs)
  obtain raw now where ev: "ev = (raw, now)"
    by (cases ev)
  from Cons.prems(1) ev have now: "now \<noteq> 0" and rest: "\<forall>e \<in> set evs. snd e \<noteq> 0"
    by simp_all
  show ?case
  proof (cases "line_event loads raw")
    case Skip
    with Cons.prems(2) ev have "consume loads st evs broken = Inr st'"
      by (simp add: step_line_event)
    from Cons.IH [OF rest this Cons.prems(3,4)] show ?thesis .
  next
    case Done
    with Cons.prems(2) ev have "st' = st\<lparr>last_token_time := Some now\<rparr>"
      by (simp add: step_line_event)
    with now Cons.prems(3) show ?thesis by simp
  next
    case (Fragment v)
    with Cons.prems(2) ev have c: "consume loads (accumulate st v now) evs broken = Inr st'"
      by (simp add: step_line_event)
    have "first_token_time (accumulate st v now) \<noteq> Some 0"
      and "last_token_time (accumulate st v now) \<noteq> Some 0"
      using now Cons.prems(3) by (simp_all add: accumulate_def)
    from Cons.IH [OF rest c this] show ?thesis .
  qed
qed

lemma done_only_run:
  "run_streaming None sample_loads ''m''
     (Inr \<lparr>stream_ok = True, stream_lines = [(Some done_line, 5)], stream_broken = False\<rparr>)
   = Inr \<lparr>mode = ''stream'', tokens = JInt 0, elapsed_seconds = 0,
          tokens_per_second = PosInf\<rparr>"
  by (simp add: run_streaming_def step_line_event line_event_done init_state_def
        finish_stream_def elapsed_of_def tps_of_def token_count_def)

lemma hello_world_consume:
  "consume sample_loads init_state
     [(Some (sse hello_payload), 1), (Some (sse world_payload), 2), (Some done_line, 3)] False
   = Inr \<lparr>first_token_time = Some 1, last_token_time = Some 3,
          chunks = [JStr ''Hello'', JStr '' world'']\<rparr>"
  by (simp add: step_line_event line_event_hello line_event_world line_event_done
        accumulate_def init_state_def)

lemma done_only_consume:
  "consume sample_loads init_state [(Some done_line, 5)] False
   = Inr \<lparr>first_token_time = None, last_token_time = Some 5, chunks = []\<rparr>"
  by (simp add: step_line_event line_event_done init_state_def)

text \<open>
  Claim C1. The clock is the wall clock, which does not read exactly 0.0 (the epoch):
  for every stream consumed with non-zero readings, the elapsed time of the report is
  the last time minus the first time when both are set after the loop, and 0 when
  either is unset.
\<close>

theorem elapsed_is_last_minus_first:
  assumes "\<forall>ev \<in> set (stream_lines r). snd ev \<noteq> 0"
    and "run_streaming tk loads model (Inr r) = Inr rep"
  shows "\<exists>st. consume loads init_state (stream_lines r) (stream_broken r) = Inr st
           \<and> elapsed_seconds rep =
               (case first_token_time st of
                  None \<Rightarrow> 0
                | Some a \<Rightarrow> (case last_token_time st of None \<Rightarrow> 0 | Some b \<Rightarrow> b - a))"
proof -
  from run_streaming_Inr [OF assms(2)] obtain st
    where c: "consume loads init_state (stream_lines r) (stream_broken r) = Inr st"
      and f: "finish_stream tk model st = Inr rep"
    by auto
  have nz: "first_token_time st \<noteq> Some 0 \<and> last_token_time st \<noteq> Some 0"
    by (rule consume_times_nonzero [OF assms(1) c]) (simp_all add: init_state_def)
  from finish_stream_Inr [OF f] have "elapsed_seconds rep = elapsed_of st"
    by blast
  also from nz have "elapsed_of st =
      (case first_token_time st of
         None \<Rightarrow> 0
       | Some a \<Rightarrow> (case last_token_time st of None \<Rightarrow> 0 | Some b \<Rightarrow> b - a))"
    by (auto simp: elapsed_of_def split: option.splits)
  finally show ?thesis
    using c by blast
qed

theorem elapsed_is_last_minus_first_witness:
  "(1 :: real) \<noteq> 0 \<and> (2 :: real) \<noteq> 0 \<and> (3 :: real) \<noteq> 0
   \<and> consume sample_loads init_state
        [(Some (sse hello_payload), 1), (Some (sse world_payload), 2), (Some done_line, 3)] False
       = Inr \<lparr>first_token_time = Some 1, last_token_time = Some 3,
              chunks = [JStr ''Hello'', JStr '' world'']\<rparr>
   \<and> run_streaming (None :: unit tiktoken option) sample_loads ''m''
        (Inr \<lparr>stream_ok = True,
              stream_lines = [(Some (sse hello_payload), 1), (Some (sse world_payload), 2),
                              (Some done_line, 3)],
              stream_broken = False\<rparr>)
       = Inr \<lparr>mode = ''stream'', tokens = JInt 2, elapsed_seconds = 3 - 1,
              tokens_per_second = Fin 1\<rparr>
   \<and> (5 :: real) \<noteq> 0
   \<and> consume sample_loads init_state [(Some done_line, 5)] False
       = Inr \<lparr>first_token_time = None, last_token_time = Some 5, chunks = []\<rparr>
   \<and> run_streaming (None :: unit tiktoken option) sample_loads ''m''
        (Inr \<lparr>stream_ok = True, stream_lines = [(Some done_line, 5)],
              stream_broken = False\<rparr>)
       = Inr \<lparr>mode = ''stream'', tokens = JInt 0, elapsed_seconds = 0,
              tokens_per_second = PosInf\<rparr>"
proof -
  have a: "\<forall>ev \<in> set [(Some (sse hello_payload), 1 :: real), (Some (sse world_payload), 2),
                  (Some done_line, 3)]. snd ev \<noteq> 0"
    by simp
  have b: "\<forall>ev \<in> set [(Some done_line, 5 :: real)]. snd ev \<noteq> 0"
    by simp
  from elapsed_is_last_minus_first
         [of "\<lparr>stream_ok = True,
               stream_lines = [(Some (sse hello_payload), 1), (Some (sse world_payload), 2),
                               (Some done_line, 3)],
               stream_broken = False\<rparr>"
             "None :: unit tiktoken option" sample_loads "''m''"
             "\<lparr>mode = ''stream'', tokens = JInt 2, elapsed_seconds = 2,
               tokens_per_second = Fin 1\<rparr>"]
       elapsed_is_last_minus_first
         [of "\<lparr>stream_ok = True, stream_lines = [(Some done_line, 5)],
               stream_broken = False\<rparr>"
             "None :: unit tiktoken option" sample_loads "''m''"
             "\<lparr>mode = ''stream'', tokens = JInt 0, elapsed_seconds = 0,
               tokens_per_second = PosInf\<rparr>"]
       a b hello_world_run [where ?'a = unit] done_only_run [where ?'a = unit]
       hello_world_consume done_only_consume
  show ?thesis
    by simp
qed

text \<open>
  The condition of the source is the truth value of the two variables, so a reading of
  exactly 0.0 would count as unset; this is why the readings are taken to be non-zero.
\<close>

lemma zero_reading_counts_as_unset:
  "consume sample_loads init_state
     [(Some (sse hello_payload), 0), (Some (sse world_payload), 2)] False
   = Inr \<lparr>first_token_time = Some 0, last_token_time = Some 2,
          chunks = [JStr ''Hello'', JStr '' world'']\<rparr>
   \<and> run_streaming None sample_loads ''m''
         (Inr \<lparr>stream_ok = True,
               stream_lines = [(Some (sse hello_payload), 0), (Some (sse world_payload), 2)],
               stream_broken = False\<rparr>)
       = Inr \<lparr>mode = ''stream'', tokens = JInt 2, elapsed_seconds = 0,
              tokens_per_second = PosInf\<rparr>"
  by (simp add: run_streaming_def step_line_event line_event_hello line_event_world
        accumulate_def init_state_def finish_stream_def elapsed_of_def tps_of_def
        token_count_def heuristic_hello_world)

section \<open>Tokens per second\<close>

text \<open>
  Claim C2. In both modes, a report that is produced has \<open>tokens_per_second\<close> equal to
  \<open>tokens / elapsed_seconds\<close> when \<open>elapsed_seconds\<close> is positive and equal to positive
  infinity when it is zero. A stream of one fragment followed by the sentinel, both at
  the same clock reading, always produces a report, with elapsed time 0 and rate
  positive infinity.
\<close>

theorem tokens_per_second_invariant:
  "((run_streaming tk loads model posted = Inr rep
      \<or> run_non_streaming tk model start posted' finish = Inr rep)
     \<longrightarrow> (0 < elapsed_seconds rep
            \<longrightarrow> (\<exists>x. as_number (tokens rep) = Some x
                    \<and> tokens_per_second rep = Fin (x / elapsed_seconds rep)))
         \<and> (elapsed_seconds rep = 0 \<longrightarrow> tokens_per_second rep = PosInf))
   \<and> (line_event loads raw = Fragment (JStr s) \<and> line_event loads dn = Done
        \<longrightarrow> (\<exists>r. run_streaming tk loads model
                    (Inr \<lparr>stream_ok = True, stream_lines = [(raw, t), (dn, t)],
                          stream_broken = b\<rparr>) = Inr r
                 \<and> elapsed_seconds r = 0 \<and> tokens_per_second r = PosInf))"
proof (intro conjI impI)
  assume run: "run_streaming tk loads model posted = Inr rep
      \<or> run_non_streaming tk model start posted' finish = Inr rep"
  have tps: "tps_of (tokens rep) (elapsed_seconds rep) = Inr (tokens_per_second rep)"
  proof (rule disjE [OF run])
    assume "run_streaming tk loads model posted = Inr rep"
    from run_streaming_Inr [OF this] obtain st where "finish_stream tk model st = Inr rep"
      by blast
    from finish_stream_Inr [OF this] show ?thesis
      by auto
  next
    assume "run_non_streaming tk model start posted' finish = Inr rep"
    from run_non_streaming_Inr [OF this] show ?thesis
      by (rule conjunct1)
  qed
  {
    assume "0 < elapsed_seconds rep"
    with tps_of_Inr [OF tps]
    show "\<exists>x. as_number (tokens rep) = Some x
            \<and> tokens_per_second rep = Fin (x / elapsed_seconds rep)"
      by simp
  next
    assume "elapsed_seconds rep = 0"
    with tps_of_Inr [OF tps] show "tokens_per_second rep = PosInf"
      by simp
  }
next
  assume ev: "line_event loads raw = Fragment (JStr s) \<and> line_event loads dn = Done"
  let ?st = "\<lparr>first_token_time = Some t, last_token_time = Some t, chunks = [JStr s]\<rparr>"
  have c: "consume loads init_state [(raw, t), (dn, t)] b = Inr ?st"
    using ev by (simp add: step_line_event accumulate_def init_state_def)
  have e: "elapsed_of ?st = 0"
    by (simp add: elapsed_of_def)
  obtain n where n: "token_count tk (JStr s) (Some model) = Inr n"
    using token_count_str_total by blast
  have "finish_stream tk model ?st
        = Inr \<lparr>mode = ''stream'', tokens = JInt n, elapsed_seconds = 0,
               tokens_per_second = PosInf\<rparr>"
    by (simp add: finish_stream_def e n tps_of_def)
  with c show "\<exists>r. run_streaming tk loads model
                    (Inr \<lparr>stream_ok = True, stream_lines = [(raw, t), (dn, t)],
                          stream_broken = b\<rparr>) = Inr r
                 \<and> elapsed_seconds r = 0 \<and> tokens_per_second r = PosInf"
    by (simp add: run_streaming_def)
qed

theorem tokens_per_second_invariant_witness:
  "run_non_streaming (None :: unit tiktoken option) ''m'' 10
       (Inr \<lparr>status_ok = True, json_body = Some usage_response\<rparr>) 12
     = Inr \<lparr>mode = ''non-stream'', tokens = JInt 7, elapsed_seconds = 2,
            tokens_per_second = Fin (7 / 2)\<rparr>
   \<and> (0 :: real) < 2
   \<and> (\<exists>x. as_number (JInt 7) = Some x \<and> Fin (7 / 2) = Fin (x / 2))
   \<and> run_streaming (None :: unit tiktoken option) sample_loads ''m''
        (Inr \<lparr>stream_ok = True,
              stream_lines = [(Some (sse hello_payload), 1), (Some (sse world_payload), 2),
                              (Some done_line, 3)],
              stream_broken = False\<rparr>)
       = Inr \<lparr>mode = ''stream'', tokens = JInt 2, elapsed_seconds = 2,
              tokens_per_second = Fin 1\<rparr>
   \<and> (\<exists>x. as_number (JInt 2) = Some x \<and> Fin 1 = Fin (x / 2))
   \<and> line_event sample_loads (Some (sse hello_payload)) = Fragment (JStr ''Hello'')
   \<and> line_event sample_loads (Some done_line) = Done
   \<and> (\<exists>r. run_streaming (None :: unit tiktoken option) sample_loads ''m''
              (Inr \<lparr>stream_ok = True,
                    stream_lines = [(Some (sse hello_payload), 4), (Some done_line, 4)],
                    stream_broken = False\<rparr>) = Inr r
            \<and> elapsed_seconds r = 0 \<and> tokens_per_second r = PosInf)"
proof -
  let ?rep = "\<lparr>mode = ''non-stream'', tokens = JInt 7, elapsed_seconds = 2,
                tokens_per_second = Fin (7 / 2)\<rparr>"
  have run: "run_non_streaming (None :: unit tiktoken option) ''m'' 10
       (Inr \<lparr>status_ok = True, json_body = Some usage_response\<rparr>) 12 = Inr ?rep"
    by (rule usage_response_run)
  have ev: "line_event sample_loads (Some (sse hello_payload)) = Fragment (JStr ''Hello'')
     \<and> line_event sample_loads (Some done_line) = Done"
    by (simp add: line_event_hello line_event_done)
  from tokens_per_second_invariant
         [of "None :: unit tiktoken option" sample_loads "''m''" "Inl HTTPError" ?rep
             10 "Inr \<lparr>status_ok = True, json_body = Some usage_response\<rparr>" 12
             "Some (sse hello_payload)" "''Hello''" "Some done_line" 4 False]
       tokens_per_second_invariant
         [of "None :: unit tiktoken option" sample_loads "''m''"
             "Inr \<lparr>stream_ok = True,
                   stream_lines = [(Some (sse hello_payload), 1), (Some (sse world_payload), 2),
                                   (Some done_line, 3)],
                   stream_broken = False\<rparr>"
             "\<lparr>mode = ''stream'', tokens = JInt 2, elapsed_seconds = 2,
               tokens_per_second = Fin 1\<rparr>"
             0 "Inl HTTPError" 0 None "[]" None 0 False]
       run ev hello_world_run [where ?'a = unit]
  show ?thesis
    by simp
qed

section \<open>The accumulated text\<close>

text \<open>
  Claim C4. When the streaming run produces a report, the accumulator after the loop is
  the list of fragments of the lines in arrival order (up to the sentinel), every one of
  them a string; the text joined from it is their concatenation in that order, and the
  reported token count is the token counter applied to exactly that text.
\<close>

theorem full_text_is_fragments_in_order:
  assumes "run_streaming tk loads model (Inr r) = Inr rep"
  shows "\<exists>st ss n.
           consume loads init_state (stream_lines r) (stream_broken r) = Inr st
           \<and> chunks st = fragments loads (stream_lines r)
           \<and> chunks st = map JStr ss
           \<and> join_chunks (chunks st) = Inr (concat ss)
           \<and> token_count tk (JStr (concat ss)) (Some model) = Inr n
           \<and> tokens rep = JInt n"
proof -
  from run_streaming_Inr [OF assms] obtain st
    where c: "consume loads init_state (stream_lines r) (stream_broken r) = Inr st"
      and f: "finish_stream tk model st = Inr rep"
    by auto
  from consume_chunks [OF c] have fr: "chunks st = fragments loads (stream_lines r)"
    by (simp add: init_state_def)
  from finish_stream_Inr [OF f] obtain full_text n
    where j: "join_chunks (chunks st) = Inr full_text"
      and n: "token_count tk (JStr full_text) (Some model) = Inr n"
      and t: "tokens rep = JInt n"
    by blast
  from join_chunks_strings [OF j] obtain ss
    where ss: "chunks st = map JStr ss" and ft: "full_text = concat ss"
    by blast
  from c fr ss j n t ft show ?thesis
    by blast
qed

theorem full_text_is_fragments_in_order_witness:
  "run_streaming (None :: unit tiktoken option) sample_loads ''m''
     (Inr \<lparr>stream_ok = True,
           stream_lines = [(Some (sse hello_payload), 1), (Some (sse world_payload), 2),
                           (Some done_line, 3)],
           stream_broken = False\<rparr>)
   = Inr \<lparr>mode = ''stream'', tokens = JInt 2, elapsed_seconds = 2,
          tokens_per_second = Fin 1\<rparr>
   \<and> (\<exists>st ss n.
         consume sample_loads init_state
           [(Some (sse hello_payload), 1), (Some (sse world_payload), 2), (Some done_line, 3)]
           False = Inr st
         \<and> chunks st = [JStr ''Hello'', JStr '' world'']
         \<and> chunks st = map JStr ss
         \<and> join_chunks (chunks st) = Inr (concat ss)
         \<and> token_count (None :: unit tiktoken option) (JStr (concat ss)) (Some ''m'') = Inr n
         \<and> JInt 2 = JInt n)"
proof -
  have fr: "fragments sample_loads
      [(Some (sse hello_payload), 1), (Some (sse world_payload), 2), (Some done_line, 3)]
      = [JStr ''Hello'', JStr '' world'']"
    by (simp add: line_event_hello line_event_world line_event_done)
  from full_text_is_fragments_in_order [OF hello_world_run [where ?'a = unit]] fr hello_world_run [where ?'a = unit]
  show ?thesis
    by simp
qed

section \<open>The two schemas\<close>

lemma text_piece_completion_chunk: "text_piece (completion_chunk s) = JStr s"
  by (simp add: completion_chunk_def text_piece_def text_piece_try_def delta_is_dict_def)

lemma text_piece_chat_chunk: "text_piece (chat_chunk s) = JStr s"
  by (simp add: chat_chunk_def text_piece_def text_piece_try_def delta_is_dict_def)

lemma line_event_parsed:
  assumes "strip raw \<noteq> []" and "payload_of (strip raw) \<noteq> ''[DONE]''"
    and "loads (payload_of (strip raw)) = Some obj"
  shows "line_event loads (Some raw)
         = (if truthy (text_piece obj) then Fragment (text_piece obj) else Skip)"
  using assms by (simp add: line_event_def)

text \<open>
  Claim C5. For every string \<open>s\<close>, the completion object \<^verbatim>\<open>{"choices":[{"text":s}]}\<close>
  and the chat object \<^verbatim>\<open>{"choices":[{"delta":{"content":s}}]}\<close> both yield the fragment
  \<open>s\<close>; a line whose payload decodes to the one and a line whose payload decodes to the
  other take the loop to the same state, and so does the rest of the stream.
\<close>

theorem completion_and_chat_same_fragment:
  "text_piece (completion_chunk s) = JStr s
   \<and> text_piece (chat_chunk s) = JStr s
   \<and> (strip l1 \<noteq> [] \<and> payload_of (strip l1) \<noteq> ''[DONE]''
        \<and> loads (payload_of (strip l1)) = Some (completion_chunk s)
        \<and> strip l2 \<noteq> [] \<and> payload_of (strip l2) \<noteq> ''[DONE]''
        \<and> loads (payload_of (strip l2)) = Some (chat_chunk s)
       \<longrightarrow> step loads st (Some l1, now) = step loads st (Some l2, now)
           \<and> consume loads st ((Some l1, now) # evs) broken
               = consume loads st ((Some l2, now) # evs) broken)"
proof (intro conjI impI)
  show "text_piece (completion_chunk s) = JStr s"
    by (rule text_piece_completion_chunk)
  show "text_piece (chat_chunk s) = JStr s"
    by (rule text_piece_chat_chunk)
  assume h: "strip l1 \<noteq> [] \<and> payload_of (strip l1) \<noteq> ''[DONE]''
        \<and> loads (payload_of (strip l1)) = Some (completion_chunk s)
        \<and> strip l2 \<noteq> [] \<and> payload_of (strip l2) \<noteq> ''[DONE]''
        \<and> loads (payload_of (strip l2)) = Some (chat_chunk s)"
  have "line_event loads (Some l1) = line_event loads (Some l2)"
    using h by (simp add: line_event_parsed text_piece_completion_chunk text_piece_chat_chunk)
  then show st: "step loads st (Some l1, now) = step loads st (Some l2, now)"
    by (simp add: step_line_event)
  then show "consume loads st ((Some l1, now) # evs) broken
               = consume loads st ((Some l2, now) # evs) broken"
    by simp
qed

lemma foo_completion_line:
  "strip (sse foo_completion_payload) \<noteq> []
   \<and> payload_of (strip (sse foo_completion_payload)) \<noteq> ''[DONE]''
   \<and> sample_loads (payload_of (strip (sse foo_completion_payload))) = Some (completion_chunk ''foo'')"
  by code_simp

lemma foo_chat_line:
  "strip (sse foo_chat_payload) \<noteq> []
   \<and> payload_of (strip (sse foo_chat_payload)) \<noteq> ''[DONE]''
   \<and> sample_loads (payload_of (strip (sse foo_chat_payload))) = Some (chat_chunk ''foo'')"
  by code_simp

lemma foo_chat_step:
  "step sample_loads init_state (Some (sse foo_chat_payload), 1)
   = Continue \<lparr>first_token_time = Some 1, last_token_time = Some 1, chunks = [JStr ''foo'']\<rparr>"
  using foo_chat_line
  by (simp add: step_line_event line_event_parsed text_piece_chat_chunk accumulate_def
        init_state_def)

theorem completion_and_chat_same_fragment_witness:
  "strip (sse foo_completion_payload) \<noteq> []
   \<and> payload_of (strip (sse foo_completion_payload)) \<noteq> ''[DONE]''
   \<and> sample_loads (payload_of (strip (sse foo_completion_payload))) = Some (completion_chunk ''foo'')
   \<and> strip (sse foo_chat_payload) \<noteq> []
   \<and> payload_of (strip (sse foo_chat_payload)) \<noteq> ''[DONE]''
   \<and> sample_loads (payload_of (strip (sse foo_chat_payload))) = Some (chat_chunk ''foo'')
   \<and> step sample_loads init_state (Some (sse foo_completion_payload), 1)
       = Continue \<lparr>first_token_time = Some 1, last_token_time = Some 1,
                   chunks = [JStr ''foo'']\<rparr>
   \<and> step sample_loads init_state (Some (sse foo_chat_payload), 1)
       = Continue \<lparr>first_token_time = Some 1, last_token_time = Some 1,
                   chunks = [JStr ''foo'']\<rparr>"
  using completion_and_chat_same_fragment
          [of "''foo''" "sse foo_completion_payload" sample_loads "sse foo_chat_payload"
              init_state 1 "[]" False]
        foo_completion_line foo_chat_line foo_chat_step
  by simp

section \<open>Lines that are not JSON\<close>

lemma payload_of_nonempty: "payload_of line \<noteq> [] \<Longrightarrow> line \<noteq> []"
  by (auto simp: payload_of_def)

lemma starts_with_append: "starts_with p (p @ b)"
  by (induction p) simp_all

lemma str_contains_append: "str_contains p (a @ p @ b)"
proof (induction a)
  case Nil
  show ?case
  proof (cases "p @ b")
    case Nil
    then show ?thesis by simp
  next
    case (Cons c cs)
    have "starts_with p (p @ b)"
      by (rule starts_with_append)
    with Cons show ?thesis by simp
  qed
next
  case (Cons x a)
  then show ?case by simp
qed

lemma line_event_unparsed:
  assumes "payload_of (strip raw) \<noteq> []" and "payload_of (strip raw) \<noteq> ''[DONE]''"
    and "loads (payload_of (strip raw)) = None"
  shows "line_event loads (Some raw) = Fragment (JStr (payload_of (strip raw)))"
  using assms payload_of_nonempty [of "strip raw"] by (simp add: line_event_def)

text \<open>
  Claim C6, as the code has it. A line whose payload is not empty, is not the sentinel
  and fails to decode does not end the loop: the payload is appended to the accumulator
  as it is, the first time is set if it was unset and the last time is set. The payload
  then is among the chunks at the end of the loop, and is a part of the joined text.
\<close>

theorem unparsed_payload_passes_through:
  assumes "payload_of (strip raw) \<noteq> []" and "payload_of (strip raw) \<noteq> ''[DONE]''"
    and "loads (payload_of (strip raw)) = None"
  shows "step loads st (Some raw, now)
           = Continue (st\<lparr>chunks := chunks st @ [JStr (payload_of (strip raw))],
                          first_token_time :=
                            (if first_token_time st = None then Some now
                             else first_token_time st),
                          last_token_time := Some now\<rparr>)
         \<and> (consume loads st ((Some raw, now) # evs) broken = Inr st'
              \<longrightarrow> JStr (payload_of (strip raw)) \<in> set (chunks st')
                  \<and> (join_chunks (chunks st') = Inr full_text
                       \<longrightarrow> str_contains (payload_of (strip raw)) full_text))"
proof (intro conjI impI)
  let ?p = "payload_of (strip raw)"
  have ev: "line_event loads (Some raw) = Fragment (JStr ?p)"
    using assms by (rule line_event_unparsed)
  show "step loads st (Some raw, now)
           = Continue (st\<lparr>chunks := chunks st @ [JStr ?p],
                          first_token_time :=
                            (if first_token_time st = None then Some now
                             else first_token_time st),
                          last_token_time := Some now\<rparr>)"
    by (simp add: step_line_event ev accumulate_def)
  assume run: "consume loads st ((Some raw, now) # evs) broken = Inr st'"
  have ch: "chunks st' = chunks st @ JStr ?p # fragments loads evs"
    using consume_chunks [OF run] ev by simp
  then show "JStr ?p \<in> set (chunks st')"
    by simp
  assume j: "join_chunks (chunks st') = Inr full_text"
  from join_chunks_strings [OF j] obtain ss
    where ss: "chunks st' = map JStr ss" and ft: "full_text = concat ss"
    by blast
  from ch ss have "map JStr ss = chunks st @ JStr ?p # fragments loads evs"
    by simp
  then obtain us vs where "ss = us @ ?p # vs"
    by (auto simp: map_eq_append_conv map_eq_Cons_conv)
  with ft have "full_text = concat us @ ?p @ concat vs"
    by simp
  then show "str_contains ?p full_text"
    by (simp add: str_contains_append)
qed

lemma heartbeat_payload: "payload_of (strip ''heartbeat'') = ''heartbeat''"
  by code_simp

lemma heartbeat_run:
  "consume sample_loads init_state
     [(Some ''heartbeat'', 1), (Some (sse hello_payload), 2), (Some done_line, 3)] False
   = Inr \<lparr>first_token_time = Some 1, last_token_time = Some 3,
          chunks = [JStr ''heartbeat'', JStr ''Hello'']\<rparr>"
  by (simp add: step_line_event line_event_heartbeat line_event_hello line_event_done
        accumulate_def init_state_def)

theorem unparsed_payload_passes_through_witness:
  "payload_of (strip ''heartbeat'') \<noteq> [] \<and> payload_of (strip ''heartbeat'') \<noteq> ''[DONE]''
   \<and> sample_loads (payload_of (strip ''heartbeat'')) = None
   \<and> step sample_loads init_state (Some ''heartbeat'', 1)
       = Continue \<lparr>first_token_time = Some 1, last_token_time = Some 1,
                   chunks = [JStr ''heartbeat'']\<rparr>
   \<and> consume sample_loads init_state
        [(Some ''heartbeat'', 1), (Some (sse hello_payload), 2), (Some done_line, 3)] False
       = Inr \<lparr>first_token_time = Some 1, last_token_time = Some 3,
              chunks = [JStr ''heartbeat'', JStr ''Hello'']\<rparr>
   \<and> join_chunks [JStr ''heartbeat'', JStr ''Hello''] = Inr ''heartbeatHello''
   \<and> str_contains ''heartbeat'' ''heartbeatHello''"
proof -
  have p: "sample_loads ''heartbeat'' = None"
    by code_simp
  have j: "join_chunks [JStr ''heartbeat'', JStr ''Hello''] = Inr ''heartbeatHello''"
    by simp
  from unparsed_payload_passes_through
         [of "''heartbeat''" sample_loads init_state 1
             "[(Some (sse hello_payload), 2), (Some done_line, 3)]" False
             "\<lparr>first_token_time = Some 1, last_token_time = Some 3,
               chunks = [JStr ''heartbeat'', JStr ''Hello'']\<rparr>" "''heartbeatHello''"]
       p j heartbeat_run
  show ?thesis
    by (simp add: heartbeat_payload init_state_def)
qed

text \<open>
  The claim as the specification states it (every payload that fails to decode is
  appended and the times are updated) fails for the line \<^verbatim>\<open>data:\<close>: its payload is the
  empty string, which is not JSON, and the loop leaves the state as it was.
\<close>

theorem empty_payload_not_accumulated:
  "sample_loads (payload_of (strip ''data:'')) = None
   \<and> step sample_loads init_state (Some ''data:'', 5) = Continue init_state
   \<and> last_token_time init_state = None \<and> chunks init_state = []"
  by code_simp

section \<open>Empty fragments\<close>

lemma delta_without_content_empty:
  assumes "map_of kvs ''choices'' = Some (JArr (JObj ch # others))"
    and "map_of ch ''delta'' = Some (JObj d)" and "map_of d ''content'' = None"
  shows "text_piece (JObj kvs) = JStr []"
  using assms key_present [OF assms(2)]
  by (simp add: text_piece_def text_piece_try_def delta_is_dict_def)

lemma neither_delta_nor_text_empty:
  assumes "map_of kvs ''choices'' = Some (JArr (JObj ch # others))"
    and "map_of ch ''delta'' = None" and "map_of ch ''text'' = None"
  shows "text_piece (JObj kvs) = JStr []"
  using assms key_absent [OF assms(2)] key_absent [OF assms(3)]
  by (simp add: text_piece_def text_piece_try_def delta_is_dict_def)

lemma delta_falsy_content_empty:
  assumes "map_of kvs ''choices'' = Some (JArr (JObj ch # others))"
    and "map_of ch ''delta'' = Some (JObj d)" and "map_of d ''content'' = Some c"
    and "\<not> truthy c"
  shows "\<not> truthy (text_piece (JObj kvs))"
  using assms key_present [OF assms(2)]
  by (simp add: text_piece_def text_piece_try_def delta_is_dict_def)

lemma truthy_fragment_accumulated:
  assumes "strip raw \<noteq> []" and "payload_of (strip raw) \<noteq> ''[DONE]''"
    and "loads (payload_of (strip raw)) = Some obj" and "truthy (text_piece obj)"
  shows "step loads st (Some raw, now) = Continue (accumulate st (text_piece obj) now)"
  using assms by (simp add: step_line_event line_event_parsed)

text \<open>
  Claim C7, as the code has it. A line that decodes to an object whose extracted
  fragment is empty leaves the accumulator and both times unchanged; that is the case
  in particular when the first choice is an object with a \<open>delta\<close> object whose
  \<open>content\<close> is absent or has no truth value (null, the empty string), or an object
  with neither \<open>delta\<close> nor \<open>text\<close>.
\<close>

theorem empty_fragment_leaves_state:
  assumes "strip raw \<noteq> []" and "payload_of (strip raw) \<noteq> ''[DONE]''"
    and "loads (payload_of (strip raw)) = Some obj"
    and "\<not> truthy (text_piece obj)
         \<or> (\<exists>kvs ch others. obj = JObj kvs
               \<and> map_of kvs ''choices'' = Some (JArr (JObj ch # others))
               \<and> ((\<exists>d. map_of ch ''delta'' = Some (JObj d)
                        \<and> (map_of d ''content'' = None
                             \<or> (\<exists>c. map_of d ''content'' = Some c \<and> \<not> truthy c)))
                    \<or> (map_of ch ''delta'' = None \<and> map_of ch ''text'' = None)))"
  shows "step loads st (Some raw, now) = Continue st"
proof -
  have "\<not> truthy (text_piece obj)"
    using assms(4)
  proof (elim disjE exE conjE)
    assume "\<not> truthy (text_piece obj)"
    then show ?thesis .
  next
    fix kvs ch others d
    assume "obj = JObj kvs" "map_of kvs ''choices'' = Some (JArr (JObj ch # others))"
      "map_of ch ''delta'' = Some (JObj d)" "map_of d ''content'' = None"
    then show ?thesis
      by (simp add: delta_without_content_empty)
  next
    fix kvs ch others d c
    assume "obj = JObj kvs" "map_of kvs ''choices'' = Some (JArr (JObj ch # others))"
      "map_of ch ''delta'' = Some (JObj d)" "map_of d ''content'' = Some c" "\<not> truthy c"
    then show ?thesis
      by (simp add: delta_falsy_content_empty)
  next
    fix kvs ch others
    assume "obj = JObj kvs" "map_of kvs ''choices'' = Some (JArr (JObj ch # others))"
      "map_of ch ''delta'' = None" "map_of ch ''text'' = None"
    then show ?thesis
      by (simp add: neither_delta_nor_text_empty)
  qed
  with assms(1-3) show ?thesis
    by (simp add: step_line_event line_event_parsed)
qed

lemma role_line:
  "strip (sse role_payload) \<noteq> []
   \<and> payload_of (strip (sse role_payload)) \<noteq> ''[DONE]''
   \<and> sample_loads (payload_of (strip (sse role_payload)))
       = Some (JObj [(''choices'', JArr [JObj [(''delta'', JObj [(''role'', JStr ''assistant'')])]])])"
  by code_simp

theorem empty_fragment_leaves_state_witness:
  "strip (sse role_payload) \<noteq> []
   \<and> payload_of (strip (sse role_payload)) \<noteq> ''[DONE]''
   \<and> sample_loads (payload_of (strip (sse role_payload)))
       = Some (JObj [(''choices'', JArr [JObj [(''delta'', JObj [(''role'', JStr ''assistant'')])]])])
   \<and> map_of [(''role'', JStr ''assistant'')] ''content'' = None
   \<and> step sample_loads
        \<lparr>first_token_time = Some 1, last_token_time = Some 2, chunks = [JStr ''Hello'']\<rparr>
        (Some (sse role_payload), 3)
       = Continue \<lparr>first_token_time = Some 1, last_token_time = Some 2,
                   chunks = [JStr ''Hello'']\<rparr>"
proof -
  let ?obj = "JObj [(''choices'', JArr [JObj [(''delta'', JObj [(''role'', JStr ''assistant'')])]])]"
  have shape: "\<not> truthy (text_piece ?obj)
         \<or> (\<exists>kvs ch others. ?obj = JObj kvs
               \<and> map_of kvs ''choices'' = Some (JArr (JObj ch # others))
               \<and> ((\<exists>d. map_of ch ''delta'' = Some (JObj d)
                        \<and> (map_of d ''content'' = None
                             \<or> (\<exists>c. map_of d ''content'' = Some c \<and> \<not> truthy c)))
                    \<or> (map_of ch ''delta'' = None \<and> map_of ch ''text'' = None)))"
    by simp
  from role_line
    empty_fragment_leaves_state
      [of "sse role_payload" sample_loads ?obj
          "\<lparr>first_token_time = Some 1, last_token_time = Some 2, chunks = [JStr ''Hello'']\<rparr>" 3,
       OF _ _ _ shape]
  show ?thesis
    by simp
qed

text \<open>
  The claim as the specification states it counts a \<open>delta\<close> whose \<open>content\<close> is not
  a string as an empty fragment. The code does not look at the type: a content that is
  the number 5 is appended and sets both times.
\<close>

theorem number_content_is_accumulated:
  "sample_loads (payload_of (strip (sse number_payload)))
     = Some (JObj [(''choices'', JArr [JObj [(''delta'', JObj [(''content'', JInt 5)])]])])
   \<and> step sample_loads init_state (Some (sse number_payload), 1)
       = Continue \<lparr>first_token_time = Some 1, last_token_time = Some 1, chunks = [JInt 5]\<rparr>
   \<and> init_state = \<lparr>first_token_time = None, last_token_time = None, chunks = []\<rparr>"
  by code_simp

section \<open>Server-reported usage\<close>

lemma usage_total_tokens_present:
  assumes "map_of kvs ''usage'' = Some (JObj u)" and "map_of u ''total_tokens'' = Some v"
  shows "usage_total_tokens (JObj kvs) = Inr v"
  using assms key_present [OF assms(1)] by (simp add: usage_total_tokens_def)

lemma run_non_streaming_usage:
  assumes "json_body r = Some (JObj kvs)"
    and "map_of kvs ''usage'' = Some (JObj u)" and "map_of u ''total_tokens'' = Some v"
    and "v \<noteq> JNull"
  shows "run_non_streaming tk model start (Inr r) finish =
           (if \<not> status_ok r then Inl HTTPError
            else
              (case response_text (JObj kvs) of
                 Inl e \<Rightarrow> Inl e
               | Inr text \<Rightarrow>
                   (case tps_of v (finish - start) of
                      Inl e \<Rightarrow> Inl e
                    | Inr tps \<Rightarrow>
                        Inr \<lparr>mode = ''non-stream'', tokens = v,
                             elapsed_seconds = finish - start, tokens_per_second = tps\<rparr>)))"
  using assms(1,4)
  by (simp add: run_non_streaming_def read_body_def num_tokens_of_def Let_def
        usage_total_tokens_present [OF assms(2,3)] split: sum.splits)

text \<open>
  Claim C8. When the response object has a \<open>usage\<close> object with a \<open>total_tokens\<close> that
  is not null, every report the run produces has that value as its token count, and
  the run does not depend on the tokenizer or on the model (the token counter is not
  called). A report is produced whenever the status is good, the text extraction does
  not raise and the value converts to a float; when the elapsed time is positive and
  the conversion raises (the value is not a number, or is an integer beyond the range
  of a float), the run raises that error.
\<close>

theorem usage_total_tokens_reported:
  assumes "json_body r = Some (JObj kvs)"
    and "map_of kvs ''usage'' = Some (JObj u)" and "map_of u ''total_tokens'' = Some v"
    and "v \<noteq> JNull"
  shows "(run_non_streaming tk model start (Inr r) finish = Inr rep \<longrightarrow> tokens rep = v)
         \<and> run_non_streaming tk' model' start (Inr r) finish
             = run_non_streaming tk model start (Inr r) finish
         \<and> (status_ok r \<and> response_text (JObj kvs) = Inr text \<and> float_of v = Inr x
              \<longrightarrow> (\<exists>rp. run_non_streaming tk model start (Inr r) finish = Inr rp
                         \<and> tokens rp = v))
         \<and> (status_ok r \<and> response_text (JObj kvs) = Inr text \<and> start < finish
              \<and> float_of v = Inl e
              \<longrightarrow> run_non_streaming tk model start (Inr r) finish = Inl e)"
proof (intro conjI impI)
  note run = run_non_streaming_usage [OF assms]
  assume "run_non_streaming tk model start (Inr r) finish = Inr rep"
  then show "tokens rep = v"
    by (auto simp: run split: if_splits sum.splits)
next
  show "run_non_streaming tk' model' start (Inr r) finish
          = run_non_streaming tk model start (Inr r) finish"
    by (simp only: run_non_streaming_usage [OF assms])
next
  assume ok: "status_ok r \<and> response_text (JObj kvs) = Inr text \<and> float_of v = Inr x"
  then have "\<exists>tps. tps_of v (finish - start) = Inr tps"
    by (simp add: tps_of_def py_truediv_def)
  then obtain tps where "tps_of v (finish - start) = Inr tps"
    by blast
  with ok show "\<exists>rp. run_non_streaming tk model start (Inr r) finish = Inr rp \<and> tokens rp = v"
    by (simp add: run_non_streaming_usage [OF assms])
next
  assume bad: "status_ok r \<and> response_text (JObj kvs) = Inr text \<and> start < finish
      \<and> float_of v = Inl e"
  then have "tps_of v (finish - start) = Inl e"
    by (simp add: tps_of_def py_truediv_def)
  with bad show "run_non_streaming tk model start (Inr r) finish = Inl e"
    by (simp add: run_non_streaming_usage [OF assms])
qed

theorem usage_total_tokens_reported_witness:
  "json_body \<lparr>status_ok = True, json_body = Some usage_response\<rparr> = Some usage_response
   \<and> map_of [(''choices'', JArr [JObj [(''message'', JObj [(''content'', JStr ''hi'')])]]),
              (''usage'', JObj [(''total_tokens'', JInt 7)])] ''usage''
       = Some (JObj [(''total_tokens'', JInt 7)])
   \<and> map_of [(''total_tokens'', JInt 7)] ''total_tokens'' = Some (JInt 7)
   \<and> JInt 7 \<noteq> JNull
   \<and> response_text usage_response = Inr (JStr ''hi'')
   \<and> float_of (JInt 7) = Inr 7
   \<and> run_non_streaming (None :: unit tiktoken option) ''m'' 10
        (Inr \<lparr>status_ok = True, json_body = Some usage_response\<rparr>) 12
       = Inr \<lparr>mode = ''non-stream'', tokens = JInt 7, elapsed_seconds = 2,
              tokens_per_second = Fin (7 / 2)\<rparr>
   \<and> tokens \<lparr>mode = ''non-stream'', tokens = JInt 7, elapsed_seconds = 2,
              tokens_per_second = Fin (7 / 2)\<rparr> = JInt 7
   \<and> run_non_streaming (Some failing_tiktoken) ''other'' 10
        (Inr \<lparr>status_ok = True, json_body = Some usage_response\<rparr>) 12
       = run_non_streaming (None :: unit tiktoken option) ''m'' 10
           (Inr \<lparr>status_ok = True, json_body = Some usage_response\<rparr>) 12
   \<and> float_of (JInt huge_count) = Inl OverflowError
   \<and> (10 :: real) < 12
   \<and> run_non_streaming (None :: unit tiktoken option) ''m'' 10
        (Inr \<lparr>status_ok = True, json_body = Some huge_usage_response\<rparr>) 12
       = Inl OverflowError"
proof -
  let ?kvs = "[(''choices'', JArr [JObj [(''message'', JObj [(''content'', JStr ''hi'')])]]),
              (''usage'', JObj [(''total_tokens'', JInt 7)])]"
  let ?r = "\<lparr>status_ok = True, json_body = Some usage_response\<rparr>"
  let ?rep = "\<lparr>mode = ''non-stream'', tokens = JInt 7, elapsed_seconds = 2,
              tokens_per_second = Fin (7 / 2)\<rparr>"
  let ?hkvs = "[(''choices'', JArr [JObj [(''message'', JObj [(''content'', JStr ''hi'')])]]),
               (''usage'', JObj [(''total_tokens'', JInt huge_count)])]"
  let ?hr = "\<lparr>status_ok = True, json_body = Some huge_usage_response\<rparr>"
  have b: "json_body ?r = Some (JObj ?kvs)"
    by (simp add: usage_response_def)
  have u: "map_of ?kvs ''usage'' = Some (JObj [(''total_tokens'', JInt 7)])"
    by simp
  have t: "map_of [(''total_tokens'', JInt 7)] ''total_tokens'' = Some (JInt 7)"
    by simp
  have n: "JInt 7 \<noteq> JNull"
    by simp
  have rt: "response_text (JObj ?kvs) = Inr (JStr ''hi'')"
    by (simp add: response_text_def message_has_content_def)
  have f: "float_of (JInt 7) = Inr 7"
    by (simp add: float_limit_def)
  have hb: "json_body ?hr = Some (JObj ?hkvs)"
    by (simp add: huge_usage_response_def)
  have hu: "map_of ?hkvs ''usage'' = Some (JObj [(''total_tokens'', JInt huge_count)])"
    by simp
  have ht: "map_of [(''total_tokens'', JInt huge_count)] ''total_tokens''
            = Some (JInt huge_count)"
    by simp
  have hn: "JInt huge_count \<noteq> JNull"
    by simp
  have hrt: "response_text (JObj ?hkvs) = Inr (JStr ''hi'')"
    by (simp add: response_text_def message_has_content_def)
  have "\<not> \<bar>huge_count\<bar> < float_limit"
    by (simp add: huge_count_def float_limit_def)
  then have hf: "float_of (JInt huge_count) = Inl OverflowError"
    by simp
  from usage_total_tokens_reported
         [OF b u t n, of "None :: unit tiktoken option" "''m''" 10 12 ?rep
            "Some failing_tiktoken" "''other''" "JStr ''hi''" 7 OverflowError]
       usage_total_tokens_reported
         [OF hb hu ht hn, of "None :: unit tiktoken option" "''m''" 10 12 ?rep
            "None :: unit tiktoken option" "''m''" "JStr ''hi''" 7 OverflowError]
       usage_response_run [of "None :: unit tiktoken option" "''m''"] b u t n rt f hrt hf
  show ?thesis
    by (simp add: usage_response_def)
qed

section \<open>The token counter never raises on a string\<close>

lemma heuristic_count_nonneg: "0 \<le> heuristic_count s"
  by (simp add: heuristic_count_def)

lemma tiktoken_count_nonneg: "tiktoken_count tk v model = Inr n \<Longrightarrow> 0 \<le> n"
  by (auto simp: tiktoken_count_def split: sum.splits)

text \<open>
  Claim C9, as the code has it. For a string (or \<^verbatim>\<open>None\<close>) the token counter returns
  a count that is not negative, whatever the tokenizer library does. Without the
  library the count is the heuristic one. With it, the count is the number of tokens
  of the model's encoding, or of \<^verbatim>\<open>cl100k_base\<close> when the lookup of the model's encoding
  raises; when no encoding is found or encoding the text raises, the count is the
  heuristic one.
\<close>

theorem token_count_never_raises:
  "(\<exists>n. 0 \<le> n \<and> token_count tka (JStr s) model = Inr n)
   \<and> token_count tka JNull model = Inr 0
   \<and> token_count None (JStr s) model = Inr (heuristic_count s)
   \<and> (encoding_for_model tk m = Inl e' \<and> m \<noteq> []
        \<longrightarrow> resolve_encoding tk (Some m) = get_encoding tk ''cl100k_base'')
   \<and> (s \<noteq> [] \<and> m \<noteq> [] \<and> encoding_for_model tk m = Inr enc
        \<and> encode tk enc (JStr s) = Inr toks
        \<longrightarrow> token_count (Some tk) (JStr s) (Some m) = Inr (int (length toks)))
   \<and> (s \<noteq> [] \<and> m \<noteq> [] \<and> encoding_for_model tk m = Inl e'
        \<and> get_encoding tk ''cl100k_base'' = Inr enc \<and> encode tk enc (JStr s) = Inr toks
        \<longrightarrow> token_count (Some tk) (JStr s) (Some m) = Inr (int (length toks)))
   \<and> (resolve_encoding tk model = Inl e
        \<or> (resolve_encoding tk model = Inr enc \<and> encode tk enc (JStr s) = Inl e)
        \<longrightarrow> token_count (Some tk) (JStr s) model = Inr (heuristic_count s))"
proof (intro conjI impI)
  show "\<exists>n. 0 \<le> n \<and> token_count tka (JStr s) model = Inr n"
  proof (cases "s = []")
    case True
    then show ?thesis by (simp add: token_count_def)
  next
    case False
    show ?thesis
    proof (cases tka)
      case None
      with False show ?thesis
        by (simp add: token_count_def heuristic_count_nonneg)
    next
      case (Some t)
      show ?thesis
      proof (cases "tiktoken_count t (JStr s) model")
        case (Inl err)
        with False Some show ?thesis
          by (simp add: token_count_def heuristic_count_nonneg)
      next
        case (Inr n)
        with False Some tiktoken_count_nonneg [OF Inr] show ?thesis
          by (simp add: token_count_def)
      qed
    qed
  qed
next
  show "token_count tka JNull model = Inr 0"
    by (simp add: token_count_def)
next
  show "token_count None (JStr s) model = Inr (heuristic_count s)"
    by (simp add: token_count_def heuristic_count_def)
next
  assume "encoding_for_model tk m = Inl e' \<and> m \<noteq> []"
  then show "resolve_encoding tk (Some m) = get_encoding tk ''cl100k_base''"
    by (simp add: resolve_encoding_def)
next
  assume "s \<noteq> [] \<and> m \<noteq> [] \<and> encoding_for_model tk m = Inr enc
        \<and> encode tk enc (JStr s) = Inr toks"
  then show "token_count (Some tk) (JStr s) (Some m) = Inr (int (length toks))"
    by (simp add: token_count_def tiktoken_count_def resolve_encoding_def)
next
  assume "s \<noteq> [] \<and> m \<noteq> [] \<and> encoding_for_model tk m = Inl e'
        \<and> get_encoding tk ''cl100k_base'' = Inr enc \<and> encode tk enc (JStr s) = Inr toks"
  then show "token_count (Some tk) (JStr s) (Some m) = Inr (int (length toks))"
    by (simp add: token_count_def tiktoken_count_def resolve_encoding_def)
next
  assume "resolve_encoding tk model = Inl e
        \<or> (resolve_encoding tk model = Inr enc \<and> encode tk enc (JStr s) = Inl e)"
  then have "\<exists>err. tiktoken_count tk (JStr s) model = Inl err"
    by (auto simp: tiktoken_count_def)
  then show "token_count (Some tk) (JStr s) model = Inr (heuristic_count s)"
    by (auto simp: token_count_def heuristic_count_def)
qed

theorem token_count_never_raises_witness:
  "encoding_for_model failing_tiktoken ''gpt-x'' = Inl TokenizerError \<and> ''gpt-x'' \<noteq> []
   \<and> resolve_encoding failing_tiktoken (Some ''gpt-x'') = Inr ()
   \<and> encode failing_tiktoken () (JStr ''Hello world'') = Inl TokenizerError
   \<and> token_count (Some failing_tiktoken) (JStr ''Hello world'') (Some ''gpt-x'') = Inr 2
   \<and> token_count (None :: unit tiktoken option) (JStr ''Hello world'') (Some ''gpt-x'') = Inr 2
   \<and> ''Hello world'' \<noteq> []
   \<and> encoding_for_model fallback_tiktoken ''gpt-x'' = Inl KeyError
   \<and> get_encoding fallback_tiktoken ''cl100k_base'' = Inr 1
   \<and> encode fallback_tiktoken 1 (JStr ''Hello world'') = Inr [10, 20, 30]
   \<and> token_count (Some fallback_tiktoken) (JStr ''Hello world'') (Some ''gpt-x'') = Inr 3
   \<and> encoding_for_model model_tiktoken ''gpt-x'' = Inr 2
   \<and> encode model_tiktoken 2 (JStr ''Hello world'') = Inr [10, 20, 30, 40]
   \<and> token_count (Some model_tiktoken) (JStr ''Hello world'') (Some ''gpt-x'') = Inr 4"
proof -
  have a: "encoding_for_model failing_tiktoken ''gpt-x'' = Inl TokenizerError \<and> ''gpt-x'' \<noteq> []"
    by (simp add: failing_tiktoken_def)
  have b: "get_encoding failing_tiktoken ''cl100k_base'' = Inr ()"
    by (simp add: failing_tiktoken_def)
  have c: "encode failing_tiktoken () (JStr ''Hello world'') = Inl TokenizerError"
    by (simp add: failing_tiktoken_def)
  have d: "encoding_for_model fallback_tiktoken ''gpt-x'' = Inl KeyError
      \<and> get_encoding fallback_tiktoken ''cl100k_base'' = Inr 1
      \<and> encode fallback_tiktoken 1 (JStr ''Hello world'') = Inr [10, 20, 30]"
    by (simp add: fallback_tiktoken_def)
  have e: "encoding_for_model model_tiktoken ''gpt-x'' = Inr 2
      \<and> encode model_tiktoken 2 (JStr ''Hello world'') = Inr [10, 20, 30, 40]"
    by (simp add: model_tiktoken_def)
  from token_count_never_raises
         [of "None :: unit tiktoken option" "''Hello world''" "Some ''gpt-x''"
            failing_tiktoken "''gpt-x''" TokenizerError "()" "[]" TokenizerError]
       token_count_never_raises
         [of "None :: unit tiktoken option" "''Hello world''" "Some ''gpt-x''"
            fallback_tiktoken "''gpt-x''" KeyError 1 "[10, 20, 30]" KeyError]
       token_count_never_raises
         [of "None :: unit tiktoken option" "''Hello world''" "Some ''gpt-x''"
            model_tiktoken "''gpt-x''" KeyError 2 "[10, 20, 30, 40]" KeyError]
       a b c d e heuristic_hello_world
  show ?thesis
    by auto
qed

text \<open>
  The claim as the specification states it (the counter never raises) fails for a
  text that is not a string: \<^verbatim>\<open>re.findall\<close> raises \<^verbatim>\<open>TypeError\<close>. The non-streaming
  run passes such a text when the content of the response is a number.
\<close>

theorem token_count_raises_on_number:
  "token_count (None :: unit tiktoken option) (JInt 5) (Some ''m'') = Inl TypeError
   \<and> response_text number_content_response = Inr (JInt 5)
   \<and> run_non_streaming (None :: unit tiktoken option) ''m'' 10
        (Inr \<lparr>status_ok = True, json_body = Some number_content_response\<rparr>) 12
       = Inl TypeError"
  by (simp add: token_count_def run_non_streaming_def read_body_def response_text_def
        message_has_content_def usage_total_tokens_def num_tokens_of_def
        number_content_response_def)

section \<open>A body that is not an object\<close>

text \<open>
  Claim C10. When the decoded body is not an object (an array, for example),
  \<^verbatim>\<open>usage_tokens\<close> is never assigned and the non-streaming run raises
  \<^verbatim>\<open>UnboundLocalError\<close> where it reads the variable.
\<close>

theorem non_object_body_unbound_local:
  assumes "\<not> is_dict data"
  shows "run_non_streaming tk model start (Inr \<lparr>status_ok = True, json_body = Some data\<rparr>) finish
         = Inl UnboundLocalError"
  using assms by (simp add: run_non_streaming_def read_body_def num_tokens_of_def)

theorem non_object_body_unbound_local_witness:
  "\<not> is_dict (JArr [])
   \<and> run_non_streaming (None :: unit tiktoken option) ''m'' 1
        (Inr \<lparr>status_ok = True, json_body = Some (JArr [])\<rparr>) 2
       = Inl UnboundLocalError"
  using non_object_body_unbound_local [of "JArr []" "None :: unit tiktoken option" "''m''" 1 2]
  by simp

end
